theory Spec2Isabelle
  imports Main
begin

section \<open>Python strings\<close>

text \<open>
  A Python \<open>str\<close> is modelled as a \<open>string\<close>; a \<open>char\<close> stands for a code point
  below 256. The helpers below are the \<open>str\<close> methods that InstallRequirements.py
  calls, with Python's behaviour on that range of code points.
\<close>

definition isspace :: "char \<Rightarrow> bool" where
  \<comment> \<open>\<open>str.isspace\<close> on one character: TAB, LF, VT, FF, CR, FS, GS, RS, US, space,
      NEL (0x85) and NBSP (0xA0) are the white space below 256\<close>
  "isspace c = ((of_char c :: nat) \<in> set [9, 10, 11, 12, 13, 28, 29, 30, 31, 32, 133, 160])"

definition strip :: "string \<Rightarrow> string" where
  \<comment> \<open>\<open>s.strip()\<close>: white space removed at both ends\<close>
  "strip s = rev (dropWhile isspace (rev (dropWhile isspace s)))"

definition startswith :: "string \<Rightarrow> string \<Rightarrow> bool" where
  \<comment> \<open>\<open>s.startswith(p)\<close>\<close>
  "startswith s p = (take (length p) s = p)"

definition upper_letters :: string where
  \<comment> \<open>the capital letters below 256: A to Z, and 0xC0 to 0xDE without the sign 0xD7\<close>
  "upper_letters = ''ABCDEFGHIJKLMNOPQRSTUVWXYZ'' @
     [CHR 0xC0, CHR 0xC1, CHR 0xC2, CHR 0xC3, CHR 0xC4, CHR 0xC5, CHR 0xC6, CHR 0xC7,
      CHR 0xC8, CHR 0xC9, CHR 0xCA, CHR 0xCB, CHR 0xCC, CHR 0xCD, CHR 0xCE, CHR 0xCF,
      CHR 0xD0, CHR 0xD1, CHR 0xD2, CHR 0xD3, CHR 0xD4, CHR 0xD5, CHR 0xD6, CHR 0xD8,
      CHR 0xD9, CHR 0xDA, CHR 0xDB, CHR 0xDC, CHR 0xDD, CHR 0xDE]"

definition lower_letters :: string where
  \<comment> \<open>their lower case, in the same order: each is 0x20 above its capital\<close>
  "lower_letters = ''abcdefghijklmnopqrstuvwxyz'' @
     [CHR 0xE0, CHR 0xE1, CHR 0xE2, CHR 0xE3, CHR 0xE4, CHR 0xE5, CHR 0xE6, CHR 0xE7,
      CHR 0xE8, CHR 0xE9, CHR 0xEA, CHR 0xEB, CHR 0xEC, CHR 0xED, CHR 0xEE, CHR 0xEF,
      CHR 0xF0, CHR 0xF1, CHR 0xF2, CHR 0xF3, CHR 0xF4, CHR 0xF5, CHR 0xF6, CHR 0xF8,
      CHR 0xF9, CHR 0xFA, CHR 0xFB, CHR 0xFC, CHR 0xFD, CHR 0xFE]"

definition lower_char :: "char \<Rightarrow> char" where
  \<comment> \<open>the lower case of a capital letter; any other character is unchanged\<close>
  "lower_char c =
     (case map_of (zip upper_letters lower_letters) c of
        Some l \<Rightarrow> l
      | None \<Rightarrow> c)"

definition lower :: "string \<Rightarrow> string" where
  \<comment> \<open>\<open>s.lower()\<close>; the program applies it to the name group of the pattern and to
      distribution names\<close>
  "lower s = map lower_char s"

function replace_str :: "string \<Rightarrow> string \<Rightarrow> string \<Rightarrow> string" where
  \<comment> \<open>\<open>s.replace(old, new)\<close>: every occurrence, found from the left, without overlap\<close>
  "replace_str old new [] = (if old = [] then new else [])"
| "replace_str old new (c # cs) =
     (if old = [] then new @ c # replace_str old new cs
      else if startswith (c # cs) old
           then new @ replace_str old new (drop (length old) (c # cs))
           else c # replace_str old new cs)"
  by pat_completeness auto
termination
  by (relation "measure (\<lambda>(old, new, s). length s)") auto

definition split_first :: "char \<Rightarrow> string \<Rightarrow> string" where
  \<comment> \<open>\<open>s.split(sep)[0]\<close> for a separator of one character: the text before the first
      separator, the whole string when there is none\<close>
  "split_first sep s = takeWhile (\<lambda>c. c \<noteq> sep) s"

section \<open>The manifest parser\<close>

record package_info =
  name :: string
  spec :: string
  version_spec :: string

definition is_name_char :: "char \<Rightarrow> bool" where
  \<comment> \<open>the character class \<open>[a-zA-Z0-9_-]\<close>\<close>
  "is_name_char c =
     (c \<in> set ''abcdefghijklmnopqrstuvwxyzABCDEFGHIJKLMNOPQRSTUVWXYZ0123456789_-'')"

definition re_match :: "string \<Rightarrow> (string \<times> string) option" where
  \<comment> \<open>\<open>re.match(r'^([a-zA-Z0-9_-]+)(.*)', s)\<close>: the groups 1 and 2, or no match. The
      first group is greedy and the second accepts any text, so nothing is given back;
      \<open>.\<close> does not match a line feed, so the second group ends before the first one\<close>
  "re_match s =
     (let g1 = takeWhile is_name_char s
      in if g1 = [] then None
         else Some (g1, takeWhile (\<lambda>c. c \<noteq> CHR 0x0A) (dropWhile is_name_char s)))"

definition parse_requirement_line :: "string \<Rightarrow> package_info option" where
  "parse_requirement_line line0 =
     (let line = strip line0
      in if line = [] \<or> startswith line ''#'' \<or> startswith line ''http'' then None
         else
           let package_part =
                 (if CHR ''['' \<in> set line then split_first (CHR ''['') line else line)
           in case re_match package_part of
                Some (g1, g2) \<Rightarrow>
                  Some \<lparr>name = replace_str ''_'' ''-'' (lower g1),
                        spec = line,
                        version_spec = strip g2\<rparr>
              | None \<Rightarrow> None)"

section \<open>The satisfaction checker\<close>

type_synonym inventory = "string \<rightharpoonup> string"

definition is_package_satisfied :: "package_info \<Rightarrow> inventory \<Rightarrow> bool" where
  "is_package_satisfied package_info installed_packages =
     (let pkg_name = name package_info;
          vspec = version_spec package_info
      in case installed_packages pkg_name of
           None \<Rightarrow> False
         | Some installed_version \<Rightarrow>
             if vspec = [] \<or> startswith vspec ''['' then True
             else if startswith vspec ''==''
                  then installed_version = strip (replace_str ''=='' [] vspec)
                  else False)"

fun check_loop :: "package_info list \<Rightarrow> inventory \<Rightarrow> string list \<Rightarrow> string list" where
  \<comment> \<open>the \<open>for\<close> loop of \<open>check_requirements_satisfied\<close>, with the list it appends to\<close>
  "check_loop [] installed_packages packages_to_install = packages_to_install"
| "check_loop (pkg_info # rest) installed_packages packages_to_install =
     check_loop rest installed_packages
       (if \<not> is_package_satisfied pkg_info installed_packages
        then packages_to_install @ [spec pkg_info]
        else packages_to_install)"

definition check_requirements_satisfied :: "package_info list \<Rightarrow> inventory \<Rightarrow> string list" where
  "check_requirements_satisfied required_packages installed_packages =
     check_loop required_packages installed_packages []"

section \<open>Effects: console, files, subprocesses, exceptions\<close>

text \<open>
  An \<open>exn\<close> is an exception object that \<open>except Exception\<close> catches, with the text
  that formatting it gives. \<open>SystemExit\<close>, which \<open>sys.exit\<close> raises and
  \<open>except Exception\<close> lets through, is an outcome of the orchestration instead.
\<close>

datatype exn = Exn string

text \<open>One constructor for each \<open>print\<close> call of the program, with the values it formats.\<close>

datatype message =
    WarnInstalled exn           \<comment> \<open>Warning: Could not read installed packages: e\<close>
  | ErrorReading exn            \<comment> \<open>Error reading requirements.txt: e\<close>
  | Installing nat              \<comment> \<open>Installing n package(s)...\<close>
  | Retrying                    \<comment> \<open>Error occurred. Retrying with detailed output...\<close>
  | ErrorInstalling exn         \<comment> \<open>Error during installation: e\<close>
  | UsingFallback               \<comment> \<open>Using fallback installation method...\<close>
  | NoManifest                  \<comment> \<open>No requirements.txt found in the script directory.\<close>
  | Checking string             \<comment> \<open>Checking requirements from path...\<close>
  | NoValidPackages             \<comment> \<open>No valid packages found in requirements.txt\<close>
  | AllSatisfied                \<comment> \<open>All requirements already satisfied.\<close>
  | AllInstalled                \<comment> \<open>All requirements installed successfully.\<close>
  | OptimizedFailed             \<comment> \<open>Optimized install failed, trying fallback...\<close>
  | InstalledViaFallback        \<comment> \<open>Requirements installed via fallback method.\<close>
  | InstallationFailed          \<comment> \<open>Installation failed.\<close>
  | OptimizationFailed exn      \<comment> \<open>Optimization failed (e), using standard installation...\<close>
  | InstalledStandard           \<comment> \<open>Requirements installed successfully. (in the handler)\<close>

text \<open>
  What the program changes: the lines printed, the files it creates and removes (path to
  content), and the argument vectors passed to \<open>subprocess.run\<close>, in call order.
\<close>

record world =
  console :: "message list"
  files :: "string \<rightharpoonup> string"
  pip_calls :: "string list list"

text \<open>An installed distribution: \<open>metadata['Name']\<close> (absent in broken metadata) and \<open>version\<close>.\<close>

datatype dist = Dist (dist_name: "string option") (dist_version: string)

text \<open>
  Opening the manifest raises, or the file yields its lines and then reaches the end or
  raises while reading.
\<close>

datatype manifest_file = Unopenable exn | Lines "string list" "exn option"

text \<open>
  What the program reads from its surroundings. \<open>run n argv\<close> is what the call number
  \<open>n\<close> of \<open>subprocess.run\<close> does with \<open>argv\<close>: raise, or give a return code.
  Five \<open>print\<close> calls of the orchestration write a literal that holds a check mark
  (U+2713) or a ballot cross (U+2717); \<open>stdout_mark_error\<close> is the UnicodeEncodeError
  that the encoding of standard output raises on these, if it has no such characters.
  Writing the other messages is taken not to fail.
\<close>

record env =
  executable :: string                       \<comment> \<open>\<open>sys.executable\<close>\<close>
  requirements_path :: string                \<comment> \<open>requirements.txt beside the script\<close>
  manifest_isfile :: bool                    \<comment> \<open>\<open>os.path.isfile(requirements_path)\<close>\<close>
  manifest :: manifest_file
  dists :: "dist list \<times> exn option"         \<comment> \<open>\<open>distributions()\<close>: those yielded, then end or raise\<close>
  mktemp :: "exn + string"                   \<comment> \<open>\<open>NamedTemporaryFile\<close>: raise, or the new file's name\<close>
  write_fails :: "exn option"                \<comment> \<open>writing or closing the temporary file raises\<close>
  run :: "nat \<Rightarrow> string list \<Rightarrow> exn + int"
  remove_fails :: "exn option"               \<comment> \<open>\<open>os.remove\<close> raises\<close>
  stdout_mark_error :: "exn option"          \<comment> \<open>printing U+2713 or U+2717 raises\<close>

definition py_print :: "message \<Rightarrow> world \<Rightarrow> world" where
  "py_print m w = w\<lparr>console := console w @ [m]\<rparr>"

definition py_print_mark :: "env \<Rightarrow> message \<Rightarrow> world \<Rightarrow> exn + world" where
  \<comment> \<open>\<open>print\<close> of a literal with U+2713 or U+2717: raises and writes nothing when standard
      output cannot encode the character\<close>
  "py_print_mark e m w =
     (case stdout_mark_error e of
        Some x \<Rightarrow> Inl x
      | None \<Rightarrow> Inr (py_print m w))"

definition subprocess_run :: "env \<Rightarrow> string list \<Rightarrow> world \<Rightarrow> (exn + int) \<times> world" where
  "subprocess_run e cmd w =
     (run e (length (pip_calls w)) cmd, w\<lparr>pip_calls := pip_calls w @ [cmd]\<rparr>)"

section \<open>The installed-inventory reader\<close>

definition none_lower_error :: exn where
  \<comment> \<open>the AttributeError of \<open>None.lower()\<close>, with its text\<close>
  "none_lower_error =
     Exn ([CHR 0x27] @ ''NoneType'' @ [CHR 0x27] @ '' object has no attribute ''
          @ [CHR 0x27] @ ''lower'' @ [CHR 0x27])"

fun collect_installed :: "dist list \<Rightarrow> inventory \<Rightarrow> exn + inventory" where
  \<comment> \<open>the dict comprehension: a later distribution of the same name replaces an earlier
      one; \<open>.lower()\<close> on a missing name, which is \<open>None\<close>, raises AttributeError\<close>
  "collect_installed [] acc = Inr acc"
| "collect_installed (d # ds) acc =
     (case dist_name d of
        None \<Rightarrow> Inl none_lower_error
      | Some n \<Rightarrow> collect_installed ds (acc(lower n \<mapsto> dist_version d)))"

definition get_installed_try :: "env \<Rightarrow> exn + inventory" where
  \<comment> \<open>the body of the \<open>try\<close>\<close>
  "get_installed_try e =
     (case dists e of (ds, raised) \<Rightarrow>
        (case collect_installed ds Map.empty of
           Inl x \<Rightarrow> Inl x
         | Inr installed \<Rightarrow> (case raised of Some x \<Rightarrow> Inl x | None \<Rightarrow> Inr installed)))"

definition get_installed_packages :: "env \<Rightarrow> world \<Rightarrow> (exn + inventory) \<times> world" where
  "get_installed_packages e w =
     (case get_installed_try e of
        Inr installed \<Rightarrow> (Inr installed, w)
      | Inl x \<Rightarrow> (Inr Map.empty, py_print (WarnInstalled x) w))"

section \<open>Reading the manifest\<close>

fun parse_loop :: "string list \<Rightarrow> package_info list \<Rightarrow> package_info list" where
  \<comment> \<open>the \<open>for line in f\<close> loop, with the list \<open>packages\<close> it appends to\<close>
  "parse_loop [] packages = packages"
| "parse_loop (line # rest) packages =
     parse_loop rest
       (case parse_requirement_line line of
          Some parsed \<Rightarrow> packages @ [parsed]
        | None \<Rightarrow> packages)"

definition parse_requirements_try :: "env \<Rightarrow> exn + package_info list" where
  \<comment> \<open>the body of the \<open>try\<close>\<close>
  "parse_requirements_try e =
     (case manifest e of
        Unopenable x \<Rightarrow> Inl x
      | Lines ls raised \<Rightarrow>
          (let packages = parse_loop ls []
           in case raised of Some x \<Rightarrow> Inl x | None \<Rightarrow> Inr packages))"

definition parse_requirements :: "env \<Rightarrow> world \<Rightarrow> (exn + package_info list) \<times> world" where
  "parse_requirements e w =
     (case parse_requirements_try e of
        Inl x \<Rightarrow> (Inr [], py_print (ErrorReading x) w)
      | Inr packages \<Rightarrow> (Inr packages, w))"

section \<open>The installer\<close>

fun str_join :: "string \<Rightarrow> string list \<Rightarrow> string" where
  \<comment> \<open>\<open>sep.join(xs)\<close>\<close>
  "str_join sep [] = []"
| "str_join sep [x] = x"
| "str_join sep (x # y # ys) = x @ sep @ str_join sep (y # ys)"

definition quiet_cmd :: "env \<Rightarrow> string \<Rightarrow> string list" where
  "quiet_cmd e temp_req_file =
     [executable e, ''-m'', ''pip'', ''install'', ''--disable-pip-version-check'',
      ''--no-warn-script-location'', ''-q'', ''-r'', temp_req_file]"

definition verbose_cmd :: "env \<Rightarrow> string \<Rightarrow> string list" where
  "verbose_cmd e req_file =
     [executable e, ''-m'', ''pip'', ''install'', ''--disable-pip-version-check'',
      ''-r'', req_file]"

definition install_packages_try ::
  "env \<Rightarrow> string list \<Rightarrow> world \<Rightarrow> (exn + bool) \<times> string option \<times> world" where
  \<comment> \<open>the body of the \<open>try\<close>: what it returns or raises, the variable \<open>temp_req_file\<close>
      when it is left, and the world\<close>
  "install_packages_try e packages_to_install w =
     (case mktemp e of
        Inl x \<Rightarrow> (Inl x, None, w)
      | Inr fname \<Rightarrow>
          (let w1 = w\<lparr>files := (files w)(fname \<mapsto> [])\<rparr>
           in case write_fails e of
                Some x \<Rightarrow> (Inl x, Some fname, w1)
              | None \<Rightarrow>
                  (let w2 = w1\<lparr>files := (files w1)(fname \<mapsto> str_join [CHR 0x0A] packages_to_install)\<rparr>;
                       w3 = py_print (Installing (length packages_to_install)) w2
                   in case subprocess_run e (quiet_cmd e fname) w3 of
                        (Inl x, w4) \<Rightarrow> (Inl x, Some fname, w4)
                      | (Inr returncode, w4) \<Rightarrow>
                          if returncode = 0 then (Inr True, Some fname, w4)
                          else
                            (case subprocess_run e (verbose_cmd e fname) (py_print Retrying w4) of
                               (Inl x, w5) \<Rightarrow> (Inl x, Some fname, w5)
                             | (Inr returncode2, w5) \<Rightarrow> (Inr (returncode2 = 0), Some fname, w5)))))"

definition install_packages_finally :: "env \<Rightarrow> string option \<Rightarrow> world \<Rightarrow> world" where
  \<comment> \<open>the \<open>finally\<close> clause: \<open>temp_req_file\<close> is tested for truth, then for existence;
      an exception of \<open>os.remove\<close> is swallowed and leaves the file\<close>
  "install_packages_finally e temp_req_file w =
     (case temp_req_file of
        None \<Rightarrow> w
      | Some fname \<Rightarrow>
          if fname \<noteq> [] \<and> files w fname \<noteq> None
          then (case remove_fails e of
                  None \<Rightarrow> w\<lparr>files := (files w)(fname := None)\<rparr>
                | Some x \<Rightarrow> w)
          else w)"

definition install_packages :: "env \<Rightarrow> string list \<Rightarrow> world \<Rightarrow> bool \<times> world" where
  "install_packages e packages_to_install w =
     (if packages_to_install = [] then (True, w)
      else
        (case install_packages_try e packages_to_install w of
           (Inr ok, temp_req_file, w1) \<Rightarrow> (ok, install_packages_finally e temp_req_file w1)
         | (Inl x, temp_req_file, w1) \<Rightarrow>
             (False, install_packages_finally e temp_req_file (py_print (ErrorInstalling x) w1))))"

definition install_requirements_fallback :: "env \<Rightarrow> world \<Rightarrow> (exn + bool) \<times> world" where
  "install_requirements_fallback e w =
     (case subprocess_run e (verbose_cmd e (requirements_path e)) (py_print UsingFallback w) of
        (Inl x, w1) \<Rightarrow> (Inl x, w1)
      | (Inr returncode, w1) \<Rightarrow> (Inr (returncode = 0), w1))"

section \<open>The orchestration\<close>

text \<open>
  How \<open>install_requirements\<close> ends: it returns, \<open>sys.exit\<close> ends the process with a
  status, or an exception leaves it.
\<close>

datatype outcome = Returned | SysExit int | Raised exn

definition exit_status :: "outcome \<Rightarrow> int" where
  \<comment> \<open>the status of the process when the script is run: the call is its last statement\<close>
  "exit_status out = (case out of Returned \<Rightarrow> 0 | SysExit n \<Rightarrow> n | Raised x \<Rightarrow> 1)"

definition install_requirements_try :: "env \<Rightarrow> world \<Rightarrow> (exn + outcome) \<times> world" where
  \<comment> \<open>the body of the \<open>try\<close>; \<open>Inl\<close> is an exception for the \<open>except Exception\<close> clause,
      also the one of a \<open>print\<close> that standard output cannot encode\<close>
  "install_requirements_try e w =
     (case get_installed_packages e w of
        (Inl x, w1) \<Rightarrow> (Inl x, w1)
      | (Inr installed_packages, w1) \<Rightarrow>
          (case parse_requirements e w1 of
             (Inl x, w2) \<Rightarrow> (Inl x, w2)
           | (Inr required_packages, w2) \<Rightarrow>
               if required_packages = [] then (Inr Returned, py_print NoValidPackages w2)
               else
                 (let packages_to_install =
                        check_requirements_satisfied required_packages installed_packages
                  in if packages_to_install = []
                     then (case py_print_mark e AllSatisfied w2 of
                             Inl x \<Rightarrow> (Inl x, w2)
                           | Inr w3 \<Rightarrow> (Inr Returned, w3))
                     else
                       (case install_packages e packages_to_install w2 of
                          (True, w3) \<Rightarrow>
                            (case py_print_mark e AllInstalled w3 of
                               Inl x \<Rightarrow> (Inl x, w3)
                             | Inr w4 \<Rightarrow> (Inr Returned, w4))
                        | (False, w3) \<Rightarrow>
                            (case install_requirements_fallback e (py_print OptimizedFailed w3) of
                               (Inl x, w4) \<Rightarrow> (Inl x, w4)
                             | (Inr True, w4) \<Rightarrow>
                                 (case py_print_mark e InstalledViaFallback w4 of
                                    Inl x \<Rightarrow> (Inl x, w4)
                                  | Inr w5 \<Rightarrow> (Inr Returned, w5))
                             | (Inr False, w4) \<Rightarrow>
                                 (case py_print_mark e InstallationFailed w4 of
                                    Inl x \<Rightarrow> (Inl x, w4)
                                  | Inr w5 \<Rightarrow> (Inr (SysExit 1), w5)))))))"

definition install_requirements :: "env \<Rightarrow> world \<Rightarrow> outcome \<times> world" where
  "install_requirements e w =
     (if \<not> manifest_isfile e then (Returned, py_print NoManifest w)
      else
        (case install_requirements_try e (py_print (Checking (requirements_path e)) w) of
           (Inr out, w1) \<Rightarrow> (out, w1)
         | (Inl x, w1) \<Rightarrow>
             (case install_requirements_fallback e (py_print (OptimizationFailed x) w1) of
                (Inl y, w2) \<Rightarrow> (Raised y, w2)
              | (Inr True, w2) \<Rightarrow>
                  (case py_print_mark e InstalledStandard w2 of
                     Inl y \<Rightarrow> (Raised y, w2)
                   | Inr w3 \<Rightarrow> (Returned, w3))
              | (Inr False, w2) \<Rightarrow>
                  (case py_print_mark e InstallationFailed w2 of
                     Inl y \<Rightarrow> (Raised y, w2)
                   | Inr w3 \<Rightarrow> (SysExit 1, w3)))))"

section \<open>Vocabulary of the properties\<close>

fun str_contains :: "string \<Rightarrow> string \<Rightarrow> bool" where
  \<comment> \<open>\<open>sub in s\<close> on strings\<close>
  "str_contains [] sub = (sub = [])"
| "str_contains (c # cs) sub = (startswith (c # cs) sub \<or> str_contains cs sub)"


text \<open>Concrete surroundings, for evaluating the program.\<close>

definition world0 :: world where
  "world0 = \<lparr>console = [], files = Map.empty, pip_calls = []\<rparr>"

definition env_satisfied :: env where
  \<comment> \<open>the manifest pins the version that is installed; the installer would succeed\<close>
  "env_satisfied =
     \<lparr>executable = ''python'', requirements_path = ''requirements.txt'',
      manifest_isfile = True,
      manifest = Lines [''# pinned'' @ [CHR 0x0A], ''Requests==2.31.0'' @ [CHR 0x0A]] None,
      dists = ([Dist (Some ''Requests'') ''2.31.0''], None),
      mktemp = Inr ''/tmp/tmpq1.txt'', write_fails = None,
      run = (\<lambda>n argv. Inr 0), remove_fails = None, stdout_mark_error = None\<rparr>"

definition env_absent :: env where
  \<comment> \<open>no requirements.txt beside the script\<close>
  "env_absent = env_satisfied\<lparr>manifest_isfile := False\<rparr>"

definition env_unreadable :: env where
  \<comment> \<open>opening the manifest raises\<close>
  "env_unreadable = env_satisfied\<lparr>manifest := Unopenable (Exn ''PermissionError'')\<rparr>"

definition env_broken_metadata :: env where
  \<comment> \<open>the second distribution has no name\<close>
  "env_broken_metadata =
     env_satisfied\<lparr>dists := ([Dist (Some ''pip'') ''24.0'', Dist None ''1.0''], None)\<rparr>"

definition env_pip_fails :: env where
  \<comment> \<open>every installer call returns the code 1\<close>
  "env_pip_fails = env_satisfied\<lparr>run := (\<lambda>n argv. Inr 1)\<rparr>"

definition env_remove_fails :: env where
  \<comment> \<open>the installer succeeds, \<open>os.remove\<close> raises\<close>
  "env_remove_fails = env_satisfied\<lparr>remove_fails := Some (Exn ''PermissionError'')\<rparr>"

definition mark_error :: exn where
  \<comment> \<open>the UnicodeEncodeError of the ASCII codec on the check mark\<close>
  "mark_error =
     Exn ([CHR 0x27] @ ''ascii'' @ [CHR 0x27] @ '' codec can'' @ [CHR 0x27]
          @ ''t encode character '' @ [CHR 0x27, CHR 0x5C] @ ''u2713'' @ [CHR 0x27]
          @ '' in position 0: ordinal not in range(128)'')"

definition env_ascii_stdout :: env where
  \<comment> \<open>as \<open>env_satisfied\<close>, with a standard output that encodes ASCII only\<close>
  "env_ascii_stdout = env_satisfied\<lparr>stdout_mark_error := Some mark_error\<rparr>"

lemmas eval_defs =
  parse_requirement_line_def strip_def isspace_def startswith_def split_first_def
  re_match_def is_name_char_def lower_def lower_char_def upper_letters_def lower_letters_def
  Let_def is_package_satisfied_def

lemmas env_defs =
  world0_def env_satisfied_def env_absent_def env_unreadable_def env_broken_metadata_def
  env_pip_fails_def env_remove_fails_def env_ascii_stdout_def

section \<open>Strings\<close>

lemma set_strip: "set (strip s) \<subseteq> set s"
proof -
  have "set (strip s) \<subseteq> set (rev (dropWhile isspace s))"
    unfolding strip_def by (metis set_dropWhileD set_rev subsetI)
  also have "\<dots> \<subseteq> set s"
    by (auto dest: set_dropWhileD)
  finally show ?thesis .
qed

lemma strip_id:
  assumes "s = [] \<or> (\<not> isspace (hd s) \<and> \<not> isspace (last s))"
  shows "strip s = s"
proof (cases "s = []")
  case True
  then show ?thesis by (simp add: strip_def)
next
  case False
  with assms have h: "\<not> isspace (hd s)" and l: "\<not> isspace (hd (rev s))"
    by (simp_all add: hd_rev)
  from h have 1: "dropWhile isspace s = s"
    by (simp add: dropWhile_eq_self_iff)
  from l have "dropWhile isspace (rev s) = rev s"
    by (simp add: dropWhile_eq_self_iff)
  with 1 show ?thesis by (simp add: strip_def)
qed

lemma name_char_not_space: "is_name_char c \<Longrightarrow> \<not> isspace c"
  by (auto simp: is_name_char_def isspace_def)

lemma not_name_chars:
  "\<not> is_name_char (CHR ''#'')" "\<not> is_name_char (CHR ''['')" "\<not> is_name_char (CHR ''='')"
  by (simp_all add: is_name_char_def)

lemma startswith_before:
  assumes "c \<notin> set q"
  shows "startswith (t @ c # r) q = startswith t q"
proof (cases "length q \<le> length t")
  case True
  then show ?thesis by (simp add: startswith_def)
next
  case False
  then have "length (take (length q) t) < length q" by simp
  then have 1: "take (length q) t \<noteq> q" by auto
  have "take (length q) (t @ c # r) \<noteq> q"
  proof
    assume e: "take (length q) (t @ c # r) = q"
    from False obtain k where k: "length q - length t = Suc k"
      by (cases "length q - length t") auto
    then have "take (length q) (t @ c # r) = t @ c # take k r" by simp
    with e have "c \<in> set q" by (metis in_set_conv_decomp)
    with assms show False by simp
  qed
  with 1 show ?thesis by (simp add: startswith_def)
qed

lemma split_at_char: "c \<in> set s \<Longrightarrow> \<exists>r. s = split_first c s @ c # r"
proof -
  assume "c \<in> set s"
  then have "dropWhile (\<lambda>x. x \<noteq> c) s \<noteq> []" by simp
  then obtain y ys where d: "dropWhile (\<lambda>x. x \<noteq> c) s = y # ys"
    by (cases "dropWhile (\<lambda>x. x \<noteq> c) s") auto
  then have "y = c"
    using hd_dropWhile[of "\<lambda>x. x \<noteq> c" s] by auto
  with d have "s = takeWhile (\<lambda>x. x \<noteq> c) s @ c # ys"
    using takeWhile_dropWhile_id[of "\<lambda>x. x \<noteq> c" s] by simp
  then show ?thesis unfolding split_first_def by blast
qed

lemma replace_str_absent:
  "old \<noteq> [] \<Longrightarrow> \<not> str_contains s old \<Longrightarrow> replace_str old new s = s"
  by (induction s) auto

lemma replace_eqeq_prefix:
  "replace_str ''=='' new (''=='' @ r) = new @ replace_str ''=='' new r"
  by (simp add: startswith_def)

section \<open>The parser\<close>

lemma parse_requirement_line_spec:
  "parse_requirement_line l = Some p \<Longrightarrow> spec p = strip l"
  by (auto simp: parse_requirement_line_def Let_def split: if_splits option.splits)

lemma parse_loop_acc:
  "parse_loop ls acc = acc @ List.map_filter parse_requirement_line ls"
  by (induction ls arbitrary: acc) (simp_all split: option.splits)

lemma name_chars_split:
  assumes "list_all is_name_char n" and "r = [] \<or> \<not> is_name_char (hd r)"
  shows "takeWhile is_name_char (n @ r) = n \<and> dropWhile is_name_char (n @ r) = r"
proof -
  from assms(1) have a: "\<forall>x\<in>set n. is_name_char x"
    by (simp add: list_all_iff)
  from assms(2) have "takeWhile is_name_char r = []" and "dropWhile is_name_char r = r"
    by (cases r; simp)+
  with a show ?thesis by simp
qed

lemma parse_from_package_part:
  assumes "strip l \<noteq> []" and "\<not> startswith (strip l) ''#''"
    and "\<not> startswith (strip l) ''http''"
    and "(if CHR ''['' \<in> set (strip l) then split_first (CHR ''['') (strip l) else strip l)
         = n @ r"
    and "n \<noteq> []" and "list_all is_name_char n" and "r = [] \<or> \<not> is_name_char (hd r)"
  shows "parse_requirement_line l =
     Some \<lparr>name = replace_str ''_'' ''-'' (lower n), spec = strip l,
           version_spec = strip (takeWhile (\<lambda>c. c \<noteq> CHR 0x0A) r)\<rparr>"
proof -
  from name_chars_split[OF assms(6,7)] assms(5)
  have "re_match (n @ r) = Some (n, takeWhile (\<lambda>c. c \<noteq> CHR 0x0A) r)"
    by (simp add: re_match_def)
  with assms(1-4) show ?thesis
    by (simp add: parse_requirement_line_def Let_def)
qed

lemma name_start_not_hash:
  assumes "n \<noteq> []" and "list_all is_name_char n"
  shows "\<not> startswith (n @ r) ''#''"
proof -
  from assms obtain c cs where n: "n = c # cs" and "is_name_char c"
    by (cases n) auto
  then have "c \<noteq> CHR ''#''"
    using not_name_chars(1) by auto
  with n show ?thesis by (simp add: startswith_def)
qed

lemma name_chars_no_bracket: "list_all is_name_char n \<Longrightarrow> CHR ''['' \<notin> set n"
  using not_name_chars(2) by (auto simp: list_all_iff)

lemma parse_extras_line:
  assumes l: "strip l = n @ CHR ''['' # rest"
    and n: "n \<noteq> []" "list_all is_name_char n" and h: "\<not> startswith n ''http''"
  shows "parse_requirement_line l =
     Some \<lparr>name = replace_str ''_'' ''-'' (lower n), spec = strip l, version_spec = []\<rparr>"
proof -
  have 1: "strip l \<noteq> []"
    using l by simp
  have 2: "\<not> startswith (strip l) ''#''"
    unfolding l using name_start_not_hash[OF n] by simp
  have 3: "\<not> startswith (strip l) ''http''"
    unfolding l using h by (simp add: startswith_before)
  have "\<forall>x\<in>set n. x \<noteq> CHR ''[''"
    using name_chars_no_bracket[OF n(2)] by auto
  then have "split_first (CHR ''['') (n @ CHR ''['' # rest) = n"
    by (simp add: split_first_def)
  then have 4: "(if CHR ''['' \<in> set (strip l) then split_first (CHR ''['') (strip l)
                 else strip l) = n @ []"
    unfolding l by simp
  have "strip (takeWhile (\<lambda>c. c \<noteq> CHR 0x0A) []) = []"
    by (simp add: strip_def)
  with parse_from_package_part[OF 1 2 3 4 n(1) n(2)] show ?thesis by simp
qed

text \<open>
  What does hold of pinned lines: when the name does not begin with \<open>http\<close> and the
  version has no bracket, no line feed and no white space at its end, the entry has the
  normalised name and the specifier \<open>==version\<close>.
\<close>

lemma parse_pinned_line:
  assumes n: "n \<noteq> []" "list_all is_name_char n" and h: "\<not> startswith n ''http''"
    and v: "CHR ''['' \<notin> set v" "CHR 0x0A \<notin> set v" "v = [] \<or> \<not> isspace (last v)"
  shows "parse_requirement_line (n @ ''=='' @ v) =
     Some \<lparr>name = replace_str ''_'' ''-'' (lower n), spec = n @ ''=='' @ v,
           version_spec = ''=='' @ v\<rparr>"
proof -
  let ?l = "n @ ''=='' @ v"
  have eq: "\<not> isspace (CHR ''='')"
    by (simp add: isspace_def)
  have sv: "strip (''=='' @ v) = ''=='' @ v"
    using v(3) eq by (intro strip_id) auto
  from n obtain c cs where nc: "n = c # cs" and c: "is_name_char c"
    by (cases n) auto
  have "\<not> isspace (hd ?l)"
    using nc c name_char_not_space by simp
  moreover have "\<not> isspace (last ?l)"
    using v(3) eq by auto
  ultimately have s: "strip ?l = ?l"
    by (intro strip_id) simp
  have 1: "strip ?l \<noteq> []"
    using n s by simp
  have 2: "\<not> startswith (strip ?l) ''#''"
    unfolding s using name_start_not_hash[OF n] by simp
  have 3: "\<not> startswith (strip ?l) ''http''"
    unfolding s
    using h startswith_before[of "CHR ''=''" "''http''" n "CHR ''='' # v"] by simp
  have "CHR ''['' \<notin> set ?l"
    using v(1) name_chars_no_bracket[OF n(2)] by simp
  then have 4: "(if CHR ''['' \<in> set (strip ?l) then split_first (CHR ''['') (strip ?l)
                 else strip ?l) = n @ (''=='' @ v)"
    unfolding s by simp
  have 5: "''=='' @ v = [] \<or> \<not> is_name_char (hd (''=='' @ v))"
    using not_name_chars(3) by simp
  have "takeWhile (\<lambda>c. c \<noteq> CHR 0x0A) v = v"
    using v(2) by (induction v) auto
  then have 6: "takeWhile (\<lambda>c. c \<noteq> CHR 0x0A) (''=='' @ v) = ''=='' @ v"
    by simp
  show ?thesis
    using parse_from_package_part[OF 1 2 3 4 n(1) n(2) 5] by (simp only: 6 sv s)
qed

lemma version_spec_no_bracket:
  assumes "parse_requirement_line l = Some p"
  shows "CHR ''['' \<notin> set (version_spec p)"
proof -
  let ?line = "strip l"
  let ?pp = "if CHR ''['' \<in> set ?line then split_first (CHR ''['') ?line else ?line"
  have pp: "CHR ''['' \<notin> set ?pp"
    by (auto simp: split_first_def dest: set_takeWhileD)
  from assms obtain g1 g2 where m: "re_match ?pp = Some (g1, g2)"
    and v: "version_spec p = strip g2"
    by (auto simp: parse_requirement_line_def Let_def split: if_splits option.splits)
  from m have "set g2 \<subseteq> set ?pp"
    by (auto simp: re_match_def Let_def split: if_splits
             dest!: set_takeWhileD set_dropWhileD)
  with pp v set_strip[of g2] show ?thesis by auto
qed

lemma bracket_tail_ignored:
  assumes a: "CHR ''['' \<in> set (strip l1)" and b: "CHR ''['' \<in> set (strip l2)"
    and e: "split_first (CHR ''['') (strip l1) = split_first (CHR ''['') (strip l2)"
  shows "map_option (\<lambda>p. (name p, version_spec p)) (parse_requirement_line l1) =
         map_option (\<lambda>p. (name p, version_spec p)) (parse_requirement_line l2)"
proof -
  define t where "t = split_first (CHR ''['') (strip l1)"
  obtain r1 where 1: "strip l1 = t @ CHR ''['' # r1"
    using split_at_char[OF a] by (auto simp: t_def)
  obtain r2 where 2: "strip l2 = t @ CHR ''['' # r2"
    using split_at_char[OF b] e by (auto simp: t_def)
  have h1: "startswith (strip l1) ''#'' = startswith (strip l2) ''#''"
    by (simp only: 1 2) (simp add: startswith_before)
  have h2: "startswith (strip l1) ''http'' = startswith (strip l2) ''http''"
    by (simp only: 1 2) (simp add: startswith_before)
  have n: "strip l1 \<noteq> []" "strip l2 \<noteq> []"
    using a b by auto
  show ?thesis
    using h1 h2 n a b e
    by (simp add: parse_requirement_line_def Let_def split: option.splits)
qed

section \<open>The checker\<close>

lemma check_loop_acc:
  "check_loop ps installed acc =
     acc @ map spec (filter (\<lambda>p. \<not> is_package_satisfied p installed) ps)"
  by (induction ps arbitrary: acc) simp_all

lemma check_requirements_satisfied_filter:
  "check_requirements_satisfied ps installed =
     map spec (filter (\<lambda>p. \<not> is_package_satisfied p installed) ps)"
  by (simp add: check_requirements_satisfied_def check_loop_acc)

lemma satisfied_without_remnant:
  assumes "CHR ''['' \<notin> set (version_spec p)"
  shows "is_package_satisfied p installed =
     (case installed (name p) of
        None \<Rightarrow> False
      | Some v \<Rightarrow> version_spec p = []
          \<or> (startswith (version_spec p) ''==''
             \<and> v = strip (replace_str ''=='' [] (version_spec p))))"
proof -
  have "\<not> startswith (version_spec p) ''[''"
    using assms by (cases "version_spec p") (auto simp: startswith_def)
  then show ?thesis
    by (auto simp: is_package_satisfied_def Let_def startswith_def split: option.splits)
qed

section \<open>Effects\<close>

lemma pip_calls_py_print: "pip_calls (py_print m w) = pip_calls w"
  by (simp add: py_print_def)

lemma files_py_print: "files (py_print m w) = files w"
  by (simp add: py_print_def)

lemma files_subprocess_run: "files (snd (subprocess_run e cmd w)) = files w"
  by (simp add: subprocess_run_def)



lemma pip_calls_get_installed:
  "get_installed_packages e w = (r, w') \<Longrightarrow> pip_calls w' = pip_calls w"
  by (auto simp: get_installed_packages_def pip_calls_py_print split: sum.splits)

lemma pip_calls_parse_requirements:
  "parse_requirements e w = (r, w') \<Longrightarrow> pip_calls w' = pip_calls w"
  by (auto simp: parse_requirements_def pip_calls_py_print split: sum.splits)

lemma install_packages_try_files:
  assumes "mktemp e = Inr fname"
  shows "\<exists>r w1 content. install_packages_try e pkgs w = (r, Some fname, w1)
           \<and> files w1 = (files w)(fname \<mapsto> content)"
proof (cases "write_fails e")
  case (Some x)
  with assms show ?thesis
    by (auto simp: install_packages_try_def)
next
  case None
  define w3 where "w3 = py_print (Installing (length pkgs))
     (w\<lparr>files := (files w)(fname \<mapsto> str_join [CHR 0x0A] pkgs)\<rparr>)"
  have f3: "files w3 = (files w)(fname \<mapsto> str_join [CHR 0x0A] pkgs)"
    by (simp add: w3_def files_py_print)
  obtain r4 w4 where q: "subprocess_run e (quiet_cmd e fname) w3 = (r4, w4)"
    by (cases "subprocess_run e (quiet_cmd e fname) w3")
  then have f4: "files w4 = files w3"
    using files_subprocess_run[of e "quiet_cmd e fname" w3] by simp
  obtain r5 w5
    where v: "subprocess_run e (verbose_cmd e fname) (py_print Retrying w4) = (r5, w5)"
    by (cases "subprocess_run e (verbose_cmd e fname) (py_print Retrying w4)")
  then have f5: "files w5 = files w3"
    using files_subprocess_run[of e "verbose_cmd e fname" "py_print Retrying w4"] f4
    by (simp add: files_py_print)
  have "install_packages_try e pkgs w =
      (case r4 of
         Inl x \<Rightarrow> (Inl x, Some fname, w4)
       | Inr rc \<Rightarrow>
           if rc = 0 then (Inr True, Some fname, w4)
           else (case r5 of
                   Inl x \<Rightarrow> (Inl x, Some fname, w5)
                 | Inr rc2 \<Rightarrow> (Inr (rc2 = 0), Some fname, w5)))"
    using assms None q v
    by (auto simp: install_packages_try_def w3_def Let_def split: sum.splits)
  then show ?thesis
    using f3 f4 f5 by (auto split: sum.splits)
qed

section \<open>The claims\<close>

text \<open>
  C1. With the inventory \<open>{"requests": "2.31.0"}\<close>, the entry parsed from
  \<open>requests==2.31.0\<close> is satisfied, the one parsed from \<open>requests==2.30.0\<close> is not, and
  the one parsed from \<open>requests>=2.0\<close> is not.
\<close>

theorem satisfaction_examples:
  "(let installed = [''requests'' \<mapsto> ''2.31.0'']
    in map_option (\<lambda>p. is_package_satisfied p installed)
         (parse_requirement_line ''requests==2.31.0'') = Some True
     \<and> map_option (\<lambda>p. is_package_satisfied p installed)
         (parse_requirement_line ''requests==2.30.0'') = Some False
     \<and> map_option (\<lambda>p. is_package_satisfied p installed)
         (parse_requirement_line ''requests>=2.0'') = Some False)"
  by (simp add: eval_defs)

text \<open>
  C2, as stated, fails: the line \<open>requests == 2.31.0\<close> gives the specifier
  \<open>== 2.31.0\<close>, and with \<open>2.31.0\<close> installed the entry is satisfied although the text
  after the operator, which begins with a space, is not the installed version.
\<close>

theorem exact_match_counterexample:
  "(let p = \<lparr>name = ''requests'', spec = ''requests == 2.31.0'',
              version_spec = ''== 2.31.0''\<rparr>;
        installed = [''requests'' \<mapsto> ''2.31.0'']
    in parse_requirement_line ''requests == 2.31.0'' = Some p
     \<and> startswith (version_spec p) ''==''
     \<and> is_package_satisfied p installed
     \<and> installed (name p) \<noteq> Some (drop 2 (version_spec p)))"
  by (simp add: eval_defs)

text \<open>
  C2, amended. For an entry whose name is in the inventory and whose specifier is \<open>==\<close>
  followed by a text that holds no further \<open>==\<close>, \<open>is_package_satisfied\<close> is true
  exactly when the installed version string is equal to that text with the white space
  at its two ends stripped. No other normalisation of versions takes place.
\<close>

theorem exact_match_stripped:
  assumes "installed (name p) = Some v" and "version_spec p = ''=='' @ r"
    and "\<not> str_contains r ''==''"
  shows "is_package_satisfied p installed \<longleftrightarrow> v = strip r"
proof -
  have sw: "startswith (version_spec p) ''==''"
    and nb: "\<not> startswith (version_spec p) ''[''"
    using assms(2) by (simp_all add: startswith_def)
  have "replace_str ''=='' [] (version_spec p) = replace_str ''=='' [] r"
    using replace_eqeq_prefix[of "[]" r] assms(2) by simp
  also have "\<dots> = r"
    using assms(3) by (simp add: replace_str_absent)
  finally have rv: "replace_str ''=='' [] (version_spec p) = r" .
  have ne: "version_spec p \<noteq> []"
    using assms(2) by simp
  show ?thesis
    using assms(1) sw nb ne rv by (simp add: is_package_satisfied_def Let_def)
qed

theorem exact_match_stripped_witness:
  "(let p = \<lparr>name = ''requests'', spec = ''requests == 2.31.0'',
              version_spec = ''== 2.31.0''\<rparr>;
        installed = [''requests'' \<mapsto> ''2.31.0'']
    in installed (name p) = Some ''2.31.0''
     \<and> version_spec p = ''=='' @ '' 2.31.0''
     \<and> \<not> str_contains '' 2.31.0'' ''==''
     \<and> strip '' 2.31.0'' = ''2.31.0''
     \<and> is_package_satisfied p installed)"
  using exact_match_stripped
    [of "[''requests'' \<mapsto> ''2.31.0'']"
        "\<lparr>name = ''requests'', spec = ''requests == 2.31.0'', version_spec = ''== 2.31.0''\<rparr>"
        "''2.31.0''" "'' 2.31.0''"]
  by (simp add: startswith_def strip_def isspace_def)

text \<open>
  C3 fails on the code for a package whose name begins with \<open>http\<close>: the line
  \<open>httpx==1.0\<close> has the form \<open>name==version\<close>, and the parser gives no entry for it,
  where the claim has the entry with name \<open>httpx\<close> and specifier \<open>==1.0\<close>.
\<close>

theorem pinned_http_name_not_parsed:
  "list_all is_name_char ''httpx''
   \<and> parse_requirement_line ''httpx==1.0'' = None
   \<and> parse_requirement_line ''httpx==1.0''
       \<noteq> Some \<lparr>name = ''httpx'', spec = ''httpx==1.0'', version_spec = ''==1.0''\<rparr>"
  by (simp add: eval_defs)

text \<open>
  C4, as stated, fails: the entry keeps the line stripped, not verbatim. The manifest
  line \<open>requests>=2.0\<close> with its line feed comes back without the line feed.
\<close>

theorem verbatim_line_counterexample:
  "check_requirements_satisfied (parse_loop [''requests>=2.0'' @ [CHR 0x0A]] []) Map.empty
     = [''requests>=2.0'']
   \<and> check_requirements_satisfied (parse_loop [''requests>=2.0'' @ [CHR 0x0A]] []) Map.empty
     \<noteq> [''requests>=2.0'' @ [CHR 0x0A]]"
  by (simp add: check_requirements_satisfied_def eval_defs)

text \<open>
  C4, amended. For every list of entries and every inventory,
  \<open>check_requirements_satisfied\<close> returns the \<open>spec\<close> field of each entry judged
  unsatisfied, in the order of the entries; for the entries parsed from the lines of a
  manifest these are the lines that give an unsatisfied entry, in manifest order, each
  with the white space at its two ends stripped and otherwise unchanged.
\<close>

theorem unsatisfied_lines_in_order:
  "check_requirements_satisfied ps installed =
     map spec (filter (\<lambda>p. \<not> is_package_satisfied p installed) ps)
   \<and> check_requirements_satisfied (parse_loop ls []) installed =
     map strip
       (filter (\<lambda>l. case parse_requirement_line l of
                       None \<Rightarrow> False
                     | Some p \<Rightarrow> \<not> is_package_satisfied p installed) ls)"
proof
  show "check_requirements_satisfied ps installed =
     map spec (filter (\<lambda>p. \<not> is_package_satisfied p installed) ps)"
    by (rule check_requirements_satisfied_filter)
  show "check_requirements_satisfied (parse_loop ls []) installed =
     map strip
       (filter (\<lambda>l. case parse_requirement_line l of
                       None \<Rightarrow> False
                     | Some p \<Rightarrow> \<not> is_package_satisfied p installed) ls)"
    unfolding check_requirements_satisfied_filter parse_loop_acc
    by (induction ls) (auto simp: parse_requirement_line_spec split: option.splits)
qed

text \<open>
  When standard output can encode the check mark, the orchestration makes no installer
  call with the manifest absent, nor with an empty list of unsatisfied lines.
\<close>

lemma no_installer_call_when_reported:
  "(\<not> manifest_isfile e \<longrightarrow>
      install_requirements e w = (Returned, py_print NoManifest w)
      \<and> exit_status (fst (install_requirements e w)) = 0
      \<and> pip_calls (snd (install_requirements e w)) = pip_calls w)
   \<and> (stdout_mark_error e = None
      \<and> get_installed_packages e (py_print (Checking (requirements_path e)) w)
          = (Inr installed, w1)
      \<and> parse_requirements e w1 = (Inr required, w2)
      \<and> check_requirements_satisfied required installed = [] \<longrightarrow>
      fst (install_requirements e w) = Returned
      \<and> pip_calls (snd (install_requirements e w)) = pip_calls w)"
proof (intro conjI impI)
  assume "\<not> manifest_isfile e"
  then show "install_requirements e w = (Returned, py_print NoManifest w)"
    and "exit_status (fst (install_requirements e w)) = 0"
    and "pip_calls (snd (install_requirements e w)) = pip_calls w"
    by (simp_all add: install_requirements_def exit_status_def pip_calls_py_print)
next
  assume a: "stdout_mark_error e = None
      \<and> get_installed_packages e (py_print (Checking (requirements_path e)) w)
          = (Inr installed, w1)
      \<and> parse_requirements e w1 = (Inr required, w2)
      \<and> check_requirements_satisfied required installed = []"
  then have p: "pip_calls w2 = pip_calls w"
    using pip_calls_get_installed pip_calls_parse_requirements pip_calls_py_print
    by metis
  from a have t:
    "install_requirements_try e (py_print (Checking (requirements_path e)) w) =
      (Inr Returned, py_print (if required = [] then NoValidPackages else AllSatisfied) w2)"
    by (simp add: install_requirements_try_def py_print_mark_def)
  from t show "fst (install_requirements e w) = Returned"
    by (cases "manifest_isfile e") (simp_all add: install_requirements_def)
  from t p show "pip_calls (snd (install_requirements e w)) = pip_calls w"
    by (cases "manifest_isfile e") (simp_all add: install_requirements_def pip_calls_py_print)
qed

text \<open>
  C5 fails on the code when standard output cannot encode the check mark. The manifest
  is there, the one requirement is satisfied and the list of unsatisfied lines is empty;
  the \<open>print\<close> of the report at line 174 raises inside the \<open>try\<close>, and the
  \<open>except Exception\<close> clause calls the fallback installer on the whole manifest. The
  report after that call raises as well and leaves \<open>install_requirements\<close>.
\<close>

theorem installer_called_with_empty_subset:
  "(let w0 = py_print (Checking ''requirements.txt'') world0;
        p = \<lparr>name = ''requests'', spec = ''Requests==2.31.0'', version_spec = ''==2.31.0''\<rparr>;
        installed = [''requests'' \<mapsto> ''2.31.0'']
    in manifest_isfile env_ascii_stdout
     \<and> get_installed_packages env_ascii_stdout w0 = (Inr installed, w0)
     \<and> parse_requirements env_ascii_stdout w0 = (Inr [p], w0)
     \<and> check_requirements_satisfied [p] installed = []
     \<and> pip_calls (snd (install_requirements env_ascii_stdout world0)) =
         [[''python'', ''-m'', ''pip'', ''install'', ''--disable-pip-version-check'',
           ''-r'', ''requirements.txt'']]
     \<and> fst (install_requirements env_ascii_stdout world0) = Raised mark_error)"
proof -
  let ?e = env_ascii_stdout
  let ?w0 = "py_print (Checking ''requirements.txt'') world0"
  let ?p = "\<lparr>name = ''requests'', spec = ''Requests==2.31.0'', version_spec = ''==2.31.0''\<rparr>"
  let ?cmd = "[''python'', ''-m'', ''pip'', ''install'', ''--disable-pip-version-check'',
           ''-r'', ''requirements.txt'']"
  have 0: "manifest_isfile ?e" "requirements_path ?e = ''requirements.txt''"
    "stdout_mark_error ?e = Some mark_error"
    by (simp_all add: env_defs)
  have 1: "get_installed_packages ?e ?w0 = (Inr [''requests'' \<mapsto> ''2.31.0''], ?w0)"
    by (simp add: get_installed_packages_def get_installed_try_def env_defs lower_def
        lower_char_def upper_letters_def lower_letters_def)
  have 2: "parse_requirements ?e ?w0 = (Inr [?p], ?w0)"
    by (simp add: parse_requirements_def parse_requirements_try_def env_defs eval_defs)
  have 3: "check_requirements_satisfied [?p] [''requests'' \<mapsto> ''2.31.0''] = []"
    by (simp add: check_requirements_satisfied_def eval_defs)
  have 4: "install_requirements_try ?e ?w0 = (Inl mark_error, ?w0)"
    using 0 1 2 3 by (simp add: install_requirements_try_def py_print_mark_def)
  have 5: "install_requirements_fallback ?e (py_print (OptimizationFailed mark_error) ?w0) =
      (Inr True, (py_print UsingFallback (py_print (OptimizationFailed mark_error) ?w0))
                    \<lparr>pip_calls := [?cmd]\<rparr>)"
    by (simp add: install_requirements_fallback_def subprocess_run_def verbose_cmd_def
        py_print_def env_defs)
  have 6: "install_requirements ?e world0 =
      (Raised mark_error,
       (py_print UsingFallback (py_print (OptimizationFailed mark_error) ?w0))
         \<lparr>pip_calls := [?cmd]\<rparr>)"
    using 0 4 5 by (simp add: install_requirements_def py_print_mark_def)
  show ?thesis
    using 0 1 2 3 6 by (simp add: Let_def)
qed

text \<open>
  C6, as stated, fails: when \<open>os.remove\<close> raises, the \<open>finally\<close> clause swallows the
  exception and the temporary file stays, here after an installer call that succeeded.
\<close>

theorem temp_file_left_counterexample:
  "mktemp env_remove_fails = Inr ''/tmp/tmpq1.txt''
   \<and> fst (install_packages env_remove_fails [''requests>=2.0''] world0) = True
   \<and> files (snd (install_packages env_remove_fails [''requests>=2.0''] world0))
        ''/tmp/tmpq1.txt'' = Some ''requests>=2.0''"
  by (simp add: install_packages_def install_packages_try_def install_packages_finally_def
      subprocess_run_def py_print_def Let_def env_defs)

text \<open>
  C6, amended. When \<open>install_packages\<close> has created its temporary file (the list is
  not empty and \<open>NamedTemporaryFile\<close> gave a name) and \<open>os.remove\<close> does not raise, the
  file is gone when the call ends, whatever the installer calls do (succeed, return a
  failure code or raise) and whether or not writing the file raises; no other file is
  changed.
\<close>

theorem temp_file_removed:
  assumes "packages_to_install \<noteq> []" and "mktemp e = Inr fname" and "fname \<noteq> []"
    and "remove_fails e = None"
  shows "files (snd (install_packages e packages_to_install w)) = (files w)(fname := None)"
proof -
  from install_packages_try_files[OF assms(2), of packages_to_install w]
  obtain r w1 content
    where t: "install_packages_try e packages_to_install w = (r, Some fname, w1)"
      and f: "files w1 = (files w)(fname \<mapsto> content)"
    by blast
  have "files (install_packages_finally e (Some fname) w') = (files w)(fname := None)"
    if "files w' = files w1" for w'
    using that f assms(3,4) by (simp add: install_packages_finally_def)
  then show ?thesis
    using t assms(1) by (cases r) (simp_all add: install_packages_def files_py_print)
qed

theorem temp_file_removed_witness:
  "[''requests>=2.0''] \<noteq> []
   \<and> mktemp env_pip_fails = Inr ''/tmp/tmpq1.txt''
   \<and> ''/tmp/tmpq1.txt'' \<noteq> []
   \<and> remove_fails env_pip_fails = None
   \<and> fst (install_packages env_pip_fails [''requests>=2.0''] world0) = False
   \<and> files (snd (install_packages env_pip_fails [''requests>=2.0''] world0))
        ''/tmp/tmpq1.txt'' = None"
proof -
  have 1: "mktemp env_pip_fails = Inr ''/tmp/tmpq1.txt''"
    and 2: "remove_fails env_pip_fails = None"
    by (simp_all add: env_defs)
  have 3: "fst (install_packages env_pip_fails [''requests>=2.0''] world0) = False"
    by (simp add: install_packages_def install_packages_try_def subprocess_run_def
        py_print_def Let_def env_defs)
  show ?thesis
    using temp_file_removed
      [of "[''requests>=2.0'']" env_pip_fails "''/tmp/tmpq1.txt''" world0] 1 2 3
    by simp
qed





text \<open>
  C9, as stated, fails: a line with a bracket does not always give an empty
  specifier. In \<open>requests==2.31.0 # pinned [security]\<close> the bracket stands in a comment,
  and the specifier is the text between the name and the bracket.
\<close>

theorem bracket_line_specifier_counterexample:
  "CHR ''['' \<in> set ''requests==2.31.0 # pinned [security]''
   \<and> map_option version_spec (parse_requirement_line ''requests==2.31.0 # pinned [security]'')
       = Some ''==2.31.0 # pinned''
   \<and> ''==2.31.0 # pinned'' \<noteq> []"
  by (simp add: eval_defs)

text \<open>
  C9, amended. For a line that holds a bracket, everything from the first bracket on is
  discarded before the name is extracted: two such lines that agree before their first
  bracket give the same name and specifier. The specifier of a parsed entry holds no
  bracket, and is empty when the first bracket stands right after the name. So it never
  starts with a bracket, the branch of \<open>is_package_satisfied\<close> for a specifier that
  starts with one is never taken on a parsed entry, and \<open>pkg[extras]==1.0\<close> is judged
  satisfied as soon as \<open>pkg\<close> is installed, whatever its version.
\<close>

theorem bracket_tail_discarded:
  "(CHR ''['' \<in> set (strip l1) \<and> CHR ''['' \<in> set (strip l2)
      \<and> split_first (CHR ''['') (strip l1) = split_first (CHR ''['') (strip l2) \<longrightarrow>
      map_option (\<lambda>p. (name p, version_spec p)) (parse_requirement_line l1) =
      map_option (\<lambda>p. (name p, version_spec p)) (parse_requirement_line l2))
   \<and> (parse_requirement_line l = Some p \<longrightarrow>
      CHR ''['' \<notin> set (version_spec p)
      \<and> \<not> startswith (version_spec p) ''[''
      \<and> is_package_satisfied p installed =
          (case installed (name p) of
             None \<Rightarrow> False
           | Some v \<Rightarrow> version_spec p = []
               \<or> (startswith (version_spec p) ''==''
                  \<and> v = strip (replace_str ''=='' [] (version_spec p)))))
   \<and> (strip l = n @ CHR ''['' # rest \<and> n \<noteq> [] \<and> list_all is_name_char n
      \<and> \<not> startswith n ''http'' \<longrightarrow>
      map_option version_spec (parse_requirement_line l) = Some []
      \<and> map_option (\<lambda>p. is_package_satisfied p installed) (parse_requirement_line l)
          = Some (installed (replace_str ''_'' ''-'' (lower n)) \<noteq> None))
   \<and> map_option (\<lambda>p. (version_spec p, is_package_satisfied p [''pkg'' \<mapsto> ''0.9'']))
        (parse_requirement_line ''pkg[extras]==1.0'') = Some ([], True)"
proof (intro conjI impI)
  assume "CHR ''['' \<in> set (strip l1) \<and> CHR ''['' \<in> set (strip l2)
      \<and> split_first (CHR ''['') (strip l1) = split_first (CHR ''['') (strip l2)"
  then show "map_option (\<lambda>p. (name p, version_spec p)) (parse_requirement_line l1) =
      map_option (\<lambda>p. (name p, version_spec p)) (parse_requirement_line l2)"
    using bracket_tail_ignored by blast
next
  assume a: "parse_requirement_line l = Some p"
  show nb: "CHR ''['' \<notin> set (version_spec p)"
    using version_spec_no_bracket[OF a] .
  then show "\<not> startswith (version_spec p) ''[''"
    by (cases "version_spec p") (auto simp: startswith_def)
  show "is_package_satisfied p installed =
          (case installed (name p) of
             None \<Rightarrow> False
           | Some v \<Rightarrow> version_spec p = []
               \<or> (startswith (version_spec p) ''==''
                  \<and> v = strip (replace_str ''=='' [] (version_spec p))))"
    using satisfied_without_remnant[OF nb] .
next
  assume b: "strip l = n @ CHR ''['' # rest \<and> n \<noteq> [] \<and> list_all is_name_char n
      \<and> \<not> startswith n ''http''"
  then have pl: "parse_requirement_line l =
     Some \<lparr>name = replace_str ''_'' ''-'' (lower n), spec = strip l, version_spec = []\<rparr>"
    using parse_extras_line by blast
  then show "map_option version_spec (parse_requirement_line l) = Some []"
    by simp
  from pl show "map_option (\<lambda>p. is_package_satisfied p installed) (parse_requirement_line l)
          = Some (installed (replace_str ''_'' ''-'' (lower n)) \<noteq> None)"
    by (auto simp: is_package_satisfied_def Let_def split: option.splits)
next
  show "map_option (\<lambda>p. (version_spec p, is_package_satisfied p [''pkg'' \<mapsto> ''0.9'']))
        (parse_requirement_line ''pkg[extras]==1.0'') = Some ([], True)"
    by (simp add: eval_defs)
qed

theorem bracket_tail_discarded_witness:
  "CHR ''['' \<in> set (strip ''pkg[extras]==1.0'') \<and> CHR ''['' \<in> set (strip ''pkg[security]'')
   \<and> split_first (CHR ''['') (strip ''pkg[extras]==1.0'')
       = split_first (CHR ''['') (strip ''pkg[security]'')
   \<and> map_option (\<lambda>p. (name p, version_spec p)) (parse_requirement_line ''pkg[extras]==1.0'')
       = map_option (\<lambda>p. (name p, version_spec p)) (parse_requirement_line ''pkg[security]'')
   \<and> parse_requirement_line ''pkg[extras]==1.0''
       = Some \<lparr>name = ''pkg'', spec = ''pkg[extras]==1.0'', version_spec = []\<rparr>
   \<and> strip ''pkg[extras]==1.0'' = ''pkg'' @ CHR ''['' # ''extras]==1.0''
   \<and> list_all is_name_char ''pkg'' \<and> \<not> startswith ''pkg'' ''http''
   \<and> is_package_satisfied \<lparr>name = ''pkg'', spec = ''pkg[extras]==1.0'', version_spec = []\<rparr>
        [''pkg'' \<mapsto> ''0.9'']"
proof -
  have 1: "strip ''pkg[extras]==1.0'' = ''pkg[extras]==1.0''"
    and 2: "strip ''pkg[security]'' = ''pkg[security]''"
    by (simp_all add: strip_def isspace_def)
  have 3: "parse_requirement_line ''pkg[extras]==1.0''
       = Some \<lparr>name = ''pkg'', spec = ''pkg[extras]==1.0'', version_spec = []\<rparr>"
    by (simp add: eval_defs)
  have 4: "list_all is_name_char ''pkg''" "\<not> startswith ''pkg'' ''http''"
    by (simp_all add: is_name_char_def startswith_def)
  show ?thesis
    using bracket_tail_discarded
      [of "''pkg[extras]==1.0''" "''pkg[security]''" "''pkg[extras]==1.0''"
          "\<lparr>name = ''pkg'', spec = ''pkg[extras]==1.0'', version_spec = []\<rparr>"
          "[''pkg'' \<mapsto> ''0.9'']" "''pkg''" "''extras]==1.0''"]
      1 2 3 4
    by (simp add: split_first_def)
qed

text \<open>
  C10. A line whose text, once stripped, starts with the four characters \<open>http\<close> gives
  no entry; \<open>httpx==1.0\<close>, a requirement on a package whose name begins with \<open>http\<close>,
  is such a line.
\<close>

theorem http_prefix_dropped:
  "(startswith (strip l) ''http'' \<longrightarrow> parse_requirement_line l = None)
   \<and> parse_requirement_line ''httpx==1.0'' = None"
  by (simp add: eval_defs)

theorem http_prefix_dropped_witness:
  "startswith (strip ''  http-parser>=0.9  '') ''http''
   \<and> parse_requirement_line ''  http-parser>=0.9  '' = None"
  using http_prefix_dropped [of "''  http-parser>=0.9  ''"]
  by (simp add: strip_def isspace_def startswith_def)

end
